theory Spec2Isabelle
  imports Complex_Main "HOL-Library.AList" "HOL-Library.Sublist"
begin

section \<open>The Item store of \<open>fastapi_crud.py\<close>\<close>

text \<open>
  The module keeps one dictionary, \<open>items_db\<close>, from generated identifiers to \<open>Item\<close>
  objects, and the request handlers over it. The embedding follows the handlers as Python
  functions: each takes the dictionary and returns its result together with the
  dictionary it leaves behind. What the web framework does around a handler (parsing the
  request into \<open>ItemCreate\<close> or \<open>ItemUpdate\<close>, serialising the returned value) is not
  part of the module and not part of the model.

  Python values are modelled as follows: \<open>str\<close> is \<open>string\<close>, \<open>None\<close> is \<open>None\<close>, a
  \<open>float\<close> is the real number it denotes (prices are only stored and compared, never
  computed with), \<open>int\<close> is \<open>int\<close>.
\<close>

subsection \<open>Data model\<close>

text \<open>
  A field of a request model is either left out of the request or given a value;
  pydantic records which (\<open>exclude_unset\<close> reads that record).
\<close>

datatype 'a field = Unset | Given 'a

text \<open>
  \<open>ItemCreate\<close> (\<open>ItemBase\<close> with nothing added): the validated body of a create request.
  \<open>name\<close> and \<open>price\<close> are required, \<open>description\<close> defaults to \<open>None\<close> and \<open>in_stock\<close>
  to \<open>True\<close>.
\<close>

record ItemCreate =
  c_name :: string
  c_description :: "string option"
  c_price :: real
  c_in_stock :: bool


text \<open>
  \<open>ItemUpdate\<close>: every field is \<open>Optional\<close> with default \<open>None\<close>, so a field of an update
  request is left out, given as \<open>null\<close>, or given a value.
\<close>

record ItemUpdate =
  u_name :: "string option field"
  u_description :: "string option field"
  u_price :: "real option field"
  u_in_stock :: "bool option field"

text \<open>
  \<open>Item\<close>: the stored object. Its class declares \<open>name: str\<close>, \<open>price: float\<close> and
  \<open>in_stock: bool\<close>, but assignment to an attribute of a pydantic model is not validated,
  so an attribute of a stored object can hold \<open>None\<close>; the attributes are therefore
  optional values here. \<open>id'\<close> is the attribute \<open>id\<close>.
\<close>

record Item =
  id' :: string
  name :: "string option"
  description :: "string option"
  price :: "real option"
  in_stock :: "bool option"

text \<open>
  \<open>items_db\<close>: a Python dictionary keeps its keys in insertion order, so it is an
  association list with distinct keys. \<open>k in d\<close> and \<open>d[k]\<close> are \<open>map_of d k\<close>,
  \<open>d[k] = v\<close> is \<open>AList.update k v d\<close> (which replaces the value of a key in place and
  appends a new key at the end, as Python does), \<open>del d[k]\<close> is \<open>AList.delete k d\<close> and
  \<open>d.values()\<close> is \<open>map snd d\<close>.
\<close>

type_synonym items_db = "(string \<times> Item) list"

datatype error = NotFound | AttributeError

subsection \<open>Handlers\<close>

text \<open>
  \<open>create_item\<close>. The first argument is the string that \<open>str(uuid.uuid4())\<close> returned
  in this call.
\<close>

definition create_item :: "string \<Rightarrow> ItemCreate \<Rightarrow> items_db \<Rightarrow> Item \<times> items_db" where
  "create_item item_id item db =
     (let new_item = \<lparr>id' = item_id,
                      name = Some (c_name item),
                      description = c_description item,
                      price = Some (c_price item),
                      in_stock = Some (c_in_stock item)\<rparr>
      in (new_item, AList.update item_id new_item db))"

definition read_item :: "string \<Rightarrow> items_db \<Rightarrow> (error + Item) \<times> items_db" where
  "read_item item_id db =
     (case map_of db item_id of
        None \<Rightarrow> (Inl NotFound, db)
      | Some it \<Rightarrow> (Inr it, db))"

text \<open>
  \<open>update_item\<close>. \<open>item_update.dict(exclude_unset=True)\<close> lists the fields the request
  gave, in the order the class declares them, and the loop assigns each to the stored
  object.
\<close>

datatype attr =
    A_name "string option"
  | A_description "string option"
  | A_price "real option"
  | A_in_stock "bool option"

definition dict_exclude_unset :: "ItemUpdate \<Rightarrow> attr list" where
  "dict_exclude_unset u =
     (case u_name u of Unset \<Rightarrow> [] | Given v \<Rightarrow> [A_name v]) @
     (case u_description u of Unset \<Rightarrow> [] | Given v \<Rightarrow> [A_description v]) @
     (case u_price u of Unset \<Rightarrow> [] | Given v \<Rightarrow> [A_price v]) @
     (case u_in_stock u of Unset \<Rightarrow> [] | Given v \<Rightarrow> [A_in_stock v])"

fun setattr :: "Item \<Rightarrow> attr \<Rightarrow> Item" where
  "setattr it (A_name v) = it\<lparr>name := v\<rparr>"
| "setattr it (A_description v) = it\<lparr>description := v\<rparr>"
| "setattr it (A_price v) = it\<lparr>price := v\<rparr>"
| "setattr it (A_in_stock v) = it\<lparr>in_stock := v\<rparr>"

definition update_item ::
  "string \<Rightarrow> ItemUpdate \<Rightarrow> items_db \<Rightarrow> (error + Item) \<times> items_db" where
  "update_item item_id item_update db =
     (case map_of db item_id of
        None \<Rightarrow> (Inl NotFound, db)
      | Some stored_item \<Rightarrow>
          (let update_data = dict_exclude_unset item_update;
               stored_item' = foldl setattr stored_item update_data
           in (Inr stored_item', AList.update item_id stored_item' db)))"

definition delete_item :: "string \<Rightarrow> items_db \<Rightarrow> (error + string) \<times> items_db" where
  "delete_item item_id db =
     (case map_of db item_id of
        None \<Rightarrow> (Inl NotFound, db)
      | Some _ \<Rightarrow> (Inr ''Item deleted successfully'', AList.delete item_id db))"

text \<open>
  \<open>read_items\<close>. \<open>slice_index\<close> is what Python does to one bound of a slice of a list of
  length \<open>n\<close>: a negative bound counts from the end, and the result is clamped to
  \<open>0 .. n\<close>. \<open>skip\<close> and \<open>limit\<close> are Python integers, so \<open>skip + limit\<close> does not
  overflow.
\<close>

definition slice_index :: "int \<Rightarrow> nat \<Rightarrow> nat" where
  "slice_index i n =
     (if i < 0 then (if i + int n < 0 then 0 else nat (i + int n))
      else if int n < i then n else nat i)"

definition py_slice :: "'a list \<Rightarrow> int \<Rightarrow> int \<Rightarrow> 'a list" where
  "py_slice xs start stop =
     (let n = length xs; s = slice_index start n; e = slice_index stop n
      in take (e - s) (drop s xs))"

definition read_items :: "int \<Rightarrow> int \<Rightarrow> items_db \<Rightarrow> Item list \<times> items_db" where
  "read_items skip limit db =
     (let items = map snd db in (py_slice items skip (skip + limit), db))"

text \<open>
  \<open>search_items\<close>. \<open>lower\<close> is \<open>str.lower\<close> on the code points below 256 (the characters
  of \<open>string\<close>): the letters A to Z and the upper-case letters of Latin-1 move up by 32.
  \<open>a in b\<close> on strings is \<open>sublist a b\<close>. \<open>item.name.lower()\<close> raises
  \<open>AttributeError\<close> when the attribute holds \<open>None\<close>; an empty description is falsy, as
  \<open>None\<close> is.
\<close>

definition lower_char :: "char \<Rightarrow> char" where
  "lower_char c =
     (let n = (of_char c :: nat)
      in if (65 \<le> n \<and> n \<le> 90) \<or> (192 \<le> n \<and> n \<le> 214) \<or> (216 \<le> n \<and> n \<le> 222)
         then char_of (n + 32) else c)"

definition lower :: "string \<Rightarrow> string" where
  "lower s = map lower_char s"

fun search_loop :: "string \<Rightarrow> Item list \<Rightarrow> Item list \<Rightarrow> error + Item list" where
  "search_loop q [] results = Inr results"
| "search_loop q (item # items) results =
     (case name item of
        None \<Rightarrow> Inl AttributeError
      | Some n \<Rightarrow>
          if sublist (lower q) (lower n) \<or>
             (case description item of
                None \<Rightarrow> False
              | Some d \<Rightarrow> d \<noteq> [] \<and> sublist (lower q) (lower d))
          then search_loop q items (results @ [item])
          else search_loop q items results)"

definition search_items :: "string \<Rightarrow> items_db \<Rightarrow> (error + Item list) \<times> items_db" where
  "search_items q db = (search_loop q (map snd db) [], db)"

definition health_check :: "items_db \<Rightarrow> (string \<times> nat) \<times> items_db" where
  "health_check db = ((''healthy'', length db), db)"

subsection \<open>The matching rule of search, in the words of the specification\<close>

text \<open>
  An Item matches a query when the lowercased query is a substring of the lowercased name,
  or the description is present and the lowercased query is a substring of the lowercased
  description.
\<close>

definition spec_matches :: "string \<Rightarrow> Item \<Rightarrow> bool" where
  "spec_matches q it =
     ((case name it of None \<Rightarrow> False | Some n \<Rightarrow> sublist (lower q) (lower n)) \<or>
      (case description it of None \<Rightarrow> False | Some d \<Rightarrow> sublist (lower q) (lower d)))"

subsection \<open>A store of any size\<close>

text \<open>
  \<open>sample_db k\<close> is the store after \<open>k\<close> create requests on the empty store, the
  \<open>j\<close>-th under an identifier of \<open>j\<close> letters.
\<close>

primrec sample_db :: "nat \<Rightarrow> items_db" where
  "sample_db 0 = []"
| "sample_db (Suc k) =
     snd (create_item (replicate (Suc k) CHR ''x'')
            \<lparr>c_name = ''item'', c_description = None, c_price = 1, c_in_stock = True\<rparr>
            (sample_db k))"

section \<open>Facts about the dictionary and the slice\<close>

lemma update_present_keys:
  "map_of db k = Some v \<Longrightarrow> map fst (AList.update k w db) = map fst db"
  by (induction db) (auto split: if_splits)

lemma update_fresh: "k \<notin> fst ` set db \<Longrightarrow> AList.update k v db = db @ [(k, v)]"
  by (induction db) auto

lemma foldl_setattr:
  "foldl setattr it (dict_exclude_unset u) =
     it\<lparr>name := (case u_name u of Unset \<Rightarrow> name it | Given v \<Rightarrow> v),
        description := (case u_description u of Unset \<Rightarrow> description it | Given v \<Rightarrow> v),
        price := (case u_price u of Unset \<Rightarrow> price it | Given v \<Rightarrow> v),
        in_stock := (case u_in_stock u of Unset \<Rightarrow> in_stock it | Given v \<Rightarrow> v)\<rparr>"
  by (simp add: dict_exclude_unset_def split: field.splits)

lemma slice_index_nonneg: "0 \<le> i \<Longrightarrow> slice_index i n = min n (nat i)"
  by (auto simp: slice_index_def)

lemma py_slice_nonneg:
  assumes "0 \<le> start" "0 \<le> len"
  shows "py_slice xs start (start + len) = take (nat len) (drop (nat start) xs)"
proof (cases "length xs \<le> nat start")
  case True
  with assms show ?thesis by (simp add: py_slice_def Let_def slice_index_nonneg)
next
  case False
  with assms have "min (length xs) (nat (start + len)) - min (length xs) (nat start)
      = min (length xs - nat start) (nat len)" by (auto simp: min_def nat_add_distrib)
  with assms False show ?thesis
    by (simp add: py_slice_def Let_def slice_index_nonneg min_def)
qed

lemma py_slice_nth:
  "py_slice xs start stop =
     map (\<lambda>i. xs ! i) [slice_index start (length xs) ..< slice_index stop (length xs)]"
proof -
  have le: "slice_index stop (length xs) \<le> length xs"
    by (auto simp: slice_index_def)
  show ?thesis
  proof (cases "slice_index start (length xs) \<le> slice_index stop (length xs)")
    case True
    with le show ?thesis
      by (auto simp: py_slice_def Let_def intro!: nth_equalityI)
  next
    case False
    then show ?thesis by (simp add: py_slice_def Let_def)
  qed
qed

lemma py_slice_butlast: "py_slice xs 0 (- 1) = butlast xs"
proof -
  have "slice_index 0 (length xs) = 0"
    by (simp add: slice_index_def)
  moreover have "slice_index (- 1) (length xs) = length xs - 1"
    by (auto simp: slice_index_def)
  ultimately show ?thesis
    by (simp add: py_slice_def Let_def butlast_conv_take)
qed

lemma py_slice_last:
  assumes "1 \<le> length xs" "length xs \<le> 99"
  shows "py_slice xs (- 1) 99 = [last xs]"
proof -
  from assms have s: "slice_index (- 1) (length xs) = length xs - 1"
    by (auto simp: slice_index_def)
  from assms have e: "slice_index 99 (length xs) = length xs"
    by (auto simp: slice_index_def)
  from assms have "xs \<noteq> []" by auto
  then have "xs = butlast xs @ [last xs]" by simp
  then have "drop (length (butlast xs)) xs = [last xs]"
    by (metis append_eq_conv_conj)
  then have "drop (length xs - 1) xs = [last xs]" by simp
  with s e assms show ?thesis by (simp add: py_slice_def Let_def)
qed

lemma py_slice_last_none:
  assumes "length xs = 0 \<or> 100 \<le> length xs"
  shows "py_slice xs (- 1) 99 = []"
  using assms by (auto simp: py_slice_def slice_index_def Let_def)

lemma sample_db_keys:
  "fst ` set (sample_db k) = (\<lambda>j. replicate (Suc j) CHR ''x'') ` {..<k}"
proof (induction k)
  case 0
  show ?case by simp
next
  case (Suc k)
  have "{..<Suc k} = insert k {..<k}" by auto
  with Suc show ?case
    by (simp add: create_item_def Let_def dom_update del: replicate_Suc)
qed

lemma sample_db_length: "length (sample_db k) = k"
proof (induction k)
  case 0
  show ?case by simp
next
  case (Suc k)
  have "replicate (Suc k) CHR ''x'' \<notin> fst ` set (sample_db k)"
  proof
    assume "replicate (Suc k) CHR ''x'' \<in> fst ` set (sample_db k)"
    then obtain j where "j < k" "replicate (Suc k) CHR ''x'' = replicate (Suc j) CHR ''x''"
      unfolding sample_db_keys by auto
    then have "length (replicate (Suc k) CHR ''x'') = length (replicate (Suc j) CHR ''x'')"
      by simp
    with \<open>j < k\<close> show False by simp
  qed
  with Suc show ?case
    by (simp add: create_item_def Let_def update_fresh del: replicate_Suc)
qed

section \<open>Facts about the search loop\<close>

lemma search_loop_filter:
  assumes "\<forall>it \<in> set items. name it \<noteq> None"
  shows "search_loop q items results = Inr (results @ filter (spec_matches q) items)"
  using assms
proof (induction items arbitrary: results)
  case Nil
  show ?case by simp
next
  case (Cons item items)
  from Cons.prems obtain n where n: "name item = Some n" by auto
  from Cons.prems have rest: "\<forall>it \<in> set items. name it \<noteq> None" by simp
  have same: "(sublist (lower q) (lower n) \<or>
        (case description item of None \<Rightarrow> False
         | Some d \<Rightarrow> d \<noteq> [] \<and> sublist (lower q) (lower d))) = spec_matches q item"
    using n by (cases "description item") (auto simp: spec_matches_def lower_def)
  show ?case
    using n same Cons.IH [OF rest] by simp
qed

lemma search_loop_null_name:
  "\<exists>it \<in> set items. name it = None \<Longrightarrow> search_loop q items results = Inl AttributeError"
  by (induction items arbitrary: results) (auto split: option.splits)

text \<open>
  What \<open>search_items\<close> does on any store: it raises when some stored Item has no name,
  and otherwise returns the Items that match by the rule of the specification.
\<close>

lemma search_items_cases:
  "search_items q db =
     (if \<exists>it \<in> set (map snd db). name it = None then Inl AttributeError
      else Inr (filter (spec_matches q) (map snd db)), db)"
proof (cases "\<exists>it \<in> set (map snd db). name it = None")
  case True
  then show ?thesis
    using search_loop_null_name [of "map snd db" q "[]"] by (simp add: search_items_def)
next
  case False
  then have "\<forall>it \<in> set (map snd db). name it \<noteq> None" by auto
  from search_loop_filter [OF this, of q "[]"] False show ?thesis
    by (simp add: search_items_def)
qed

lemma spec_matches_empty: "name it \<noteq> None \<Longrightarrow> spec_matches [] it"
  by (auto simp: spec_matches_def lower_def)

section \<open>The claims\<close>

text \<open>
  C1. For an id present in the store and any update request, \<open>update_item\<close> succeeds; the
  Item it returns is the Item stored under the id afterwards; each of \<open>name\<close>,
  \<open>description\<close>, \<open>price\<close> and \<open>in_stock\<close> has the value the request gave it if the
  request gave one, and its prior value otherwise; \<open>id\<close> keeps its value (\<open>ItemUpdate\<close> has
  no such field, so an \<open>id\<close> in the body never reaches the handler); the keys of the store
  and every other entry are as before.
\<close>

theorem update_item_partial:
  assumes "map_of db item_id = Some stored"
  shows "\<exists>it db'. update_item item_id u db = (Inr it, db') \<and>
           map_of db' item_id = Some it \<and>
           id' it = id' stored \<and>
           name it = (case u_name u of Unset \<Rightarrow> name stored | Given v \<Rightarrow> v) \<and>
           description it =
             (case u_description u of Unset \<Rightarrow> description stored | Given v \<Rightarrow> v) \<and>
           price it = (case u_price u of Unset \<Rightarrow> price stored | Given v \<Rightarrow> v) \<and>
           in_stock it = (case u_in_stock u of Unset \<Rightarrow> in_stock stored | Given v \<Rightarrow> v) \<and>
           map fst db' = map fst db \<and>
           (\<forall>k. k \<noteq> item_id \<longrightarrow> map_of db' k = map_of db k)"
proof -
  let ?it = "foldl setattr stored (dict_exclude_unset u)"
  let ?db = "AList.update item_id ?it db"
  have run: "update_item item_id u db = (Inr ?it, ?db)"
    using assms by (simp add: update_item_def Let_def)
  have look: "map_of ?db item_id = Some ?it"
    by (simp add: update_conv')
  have others: "\<forall>k. k \<noteq> item_id \<longrightarrow> map_of ?db k = map_of db k"
    by (simp add: update_conv')
  have keys: "map fst ?db = map fst db"
    using assms by (rule update_present_keys)
  have fields: "id' ?it = id' stored"
    "name ?it = (case u_name u of Unset \<Rightarrow> name stored | Given v \<Rightarrow> v)"
    "description ?it =
       (case u_description u of Unset \<Rightarrow> description stored | Given v \<Rightarrow> v)"
    "price ?it = (case u_price u of Unset \<Rightarrow> price stored | Given v \<Rightarrow> v)"
    "in_stock ?it = (case u_in_stock u of Unset \<Rightarrow> in_stock stored | Given v \<Rightarrow> v)"
    by (simp_all add: foldl_setattr)
  from run look others keys fields show ?thesis by blast
qed

theorem update_item_partial_witness:
  "\<exists>it db'.
     update_item ''a''
       \<lparr>u_name = Unset, u_description = Unset, u_price = Given (Some 2), u_in_stock = Unset\<rparr>
       [(''a'', \<lparr>id' = ''a'', name = Some ''Bolt'', description = None,
               price = Some 1.5, in_stock = Some True\<rparr>)] = (Inr it, db') \<and>
     map_of db' ''a'' = Some it \<and> id' it = ''a'' \<and> name it = Some ''Bolt'' \<and>
     description it = None \<and> price it = Some 2 \<and> in_stock it = Some True"
proof -
  have present: "map_of [(''a'', \<lparr>id' = ''a'', name = Some ''Bolt'', description = None,
               price = Some 1.5, in_stock = Some True\<rparr>)] ''a'' =
      Some \<lparr>id' = ''a'', name = Some ''Bolt'', description = None,
               price = Some 1.5, in_stock = Some True\<rparr>"
    by simp
  from update_item_partial [OF present,
      of "\<lparr>u_name = Unset, u_description = Unset, u_price = Given (Some 2), u_in_stock = Unset\<rparr>"]
  show ?thesis by auto
qed

text \<open>
  C2. Creating an Item and then reading the id of the returned Item succeeds and returns
  the Item that create returned (equal as records, so in all five fields), whatever
  identifier was generated and whatever the store held.
\<close>

theorem create_then_read:
  "(let (it, db') = create_item item_id item db
    in id' it = item_id \<and> read_item (id' it) db' = (Inr it, db'))"
  by (simp add: create_item_def read_item_def Let_def update_conv')

text \<open>
  C3. The claim is that no stored Item ever has a null name or price. It fails: a create
  followed by an update whose body gives \<open>name\<close> and \<open>price\<close> as \<open>null\<close> leaves the
  stored Item with both \<open>None\<close>, and a search on that store raises.
\<close>

theorem update_item_null_name:
  "(let (it, db1) = create_item ''a''
        \<lparr>c_name = ''Bolt'', c_description = None, c_price = 1.5, c_in_stock = True\<rparr> [];
        (r, db2) = update_item ''a''
        \<lparr>u_name = Given None, u_description = Unset, u_price = Given None,
         u_in_stock = Unset\<rparr> db1
    in r = Inr \<lparr>id' = ''a'', name = None, description = None, price = None,
                 in_stock = Some True\<rparr> \<and>
       db2 = [(''a'', \<lparr>id' = ''a'', name = None, description = None, price = None,
                        in_stock = Some True\<rparr>)] \<and>
       fst (search_items ''bolt'' db2) = Inl AttributeError)"
  by (simp add: create_item_def update_item_def dict_exclude_unset_def search_items_def Let_def)

text \<open>
  C4. When the id is not a key of the store, \<open>read_item\<close>, \<open>update_item\<close> and
  \<open>delete_item\<close> each fail with \<open>NotFound\<close>; when it is, each succeeds, and a second
  delete of the same id, on the store the first one left, fails with \<open>NotFound\<close>.
\<close>

theorem not_found_iff_absent:
  "(item_id \<notin> fst ` set db \<longrightarrow>
      fst (read_item item_id db) = Inl NotFound \<and>
      fst (update_item item_id u db) = Inl NotFound \<and>
      fst (delete_item item_id db) = Inl NotFound) \<and>
   (item_id \<in> fst ` set db \<longrightarrow>
      (\<exists>it. fst (read_item item_id db) = Inr it) \<and>
      (\<exists>it. fst (update_item item_id u db) = Inr it) \<and>
      (\<exists>m. fst (delete_item item_id db) = Inr m) \<and>
      fst (delete_item item_id (snd (delete_item item_id db))) = Inl NotFound)"
proof (cases "map_of db item_id")
  case None
  then have "item_id \<notin> fst ` set db" by (simp add: map_of_eq_None_iff)
  with None show ?thesis
    by (simp add: read_item_def update_item_def delete_item_def)
next
  case (Some it)
  then have "item_id \<in> fst ` set db" by (metis map_of_eq_None_iff option.distinct(1))
  moreover have "map_of (AList.delete item_id db) item_id = None"
    by (simp add: delete_conv')
  ultimately show ?thesis using Some
    by (simp add: read_item_def update_item_def delete_item_def Let_def)
qed

theorem not_found_iff_absent_witness:
  "fst (read_item ''b'' [(''a'', \<lparr>id' = ''a'', name = Some ''Bolt'', description = None,
               price = Some 1.5, in_stock = Some True\<rparr>)]) = Inl NotFound \<and>
   (\<exists>it. fst (read_item ''a'' [(''a'', \<lparr>id' = ''a'', name = Some ''Bolt'', description = None,
               price = Some 1.5, in_stock = Some True\<rparr>)]) = Inr it) \<and>
   fst (delete_item ''a'' (snd (delete_item ''a'' [(''a'', \<lparr>id' = ''a'', name = Some ''Bolt'', description = None,
               price = Some 1.5, in_stock = Some True\<rparr>)]))) = Inl NotFound"
  using
    not_found_iff_absent [of "''b''" "[(''a'', \<lparr>id' = ''a'', name = Some ''Bolt'', description = None,
               price = Some 1.5, in_stock = Some True\<rparr>)]"]
    not_found_iff_absent [of "''a''" "[(''a'', \<lparr>id' = ''a'', name = Some ''Bolt'', description = None,
               price = Some 1.5, in_stock = Some True\<rparr>)]"]
  by simp

text \<open>
  C5. When \<open>read_item\<close>, \<open>update_item\<close> or \<open>delete_item\<close> fails, the store it leaves is
  the store it was given.
\<close>

theorem failed_operation_keeps_store:
  "(fst (read_item item_id db) = Inl e \<longrightarrow> snd (read_item item_id db) = db) \<and>
   (fst (update_item item_id u db) = Inl e \<longrightarrow> snd (update_item item_id u db) = db) \<and>
   (fst (delete_item item_id db) = Inl e \<longrightarrow> snd (delete_item item_id db) = db)"
  by (simp add: read_item_def update_item_def delete_item_def Let_def split: option.splits)

theorem failed_operation_keeps_store_witness:
  "fst (update_item ''abc''
     \<lparr>u_name = Unset, u_description = Unset, u_price = Given (Some 2), u_in_stock = Unset\<rparr>
     [(''a'', \<lparr>id' = ''a'', name = Some ''Bolt'', description = None,
               price = Some 1.5, in_stock = Some True\<rparr>)]) = Inl NotFound \<and>
   snd (update_item ''abc''
     \<lparr>u_name = Unset, u_description = Unset, u_price = Given (Some 2), u_in_stock = Unset\<rparr>
     [(''a'', \<lparr>id' = ''a'', name = Some ''Bolt'', description = None,
               price = Some 1.5, in_stock = Some True\<rparr>)]) =
     [(''a'', \<lparr>id' = ''a'', name = Some ''Bolt'', description = None,
               price = Some 1.5, in_stock = Some True\<rparr>)]"
proof -
  have failed: "fst (update_item ''abc''
     \<lparr>u_name = Unset, u_description = Unset, u_price = Given (Some 2), u_in_stock = Unset\<rparr>
     [(''a'', \<lparr>id' = ''a'', name = Some ''Bolt'', description = None,
               price = Some 1.5, in_stock = Some True\<rparr>)]) = Inl NotFound"
    by (simp add: update_item_def)
  with failed_operation_keeps_store [of "''abc''" _ NotFound] show ?thesis by blast
qed

text \<open>
  C6. For non-negative \<open>skip\<close> and \<open>limit\<close>, \<open>read_items\<close> returns the values of the
  store, in the store's order, from offset \<open>skip\<close> on and at most \<open>limit\<close> of them; the
  result is empty when \<open>skip\<close> is at least the size of the store.
\<close>

theorem read_items_window:
  assumes "0 \<le> skip" "0 \<le> limit"
  shows "read_items skip limit db = (take (nat limit) (drop (nat skip) (map snd db)), db) \<and>
         int (length (fst (read_items skip limit db))) \<le> limit \<and>
         (int (length db) \<le> skip \<longrightarrow> fst (read_items skip limit db) = [])"
  using assms by (auto simp: read_items_def Let_def py_slice_nonneg)

theorem read_items_window_witness:
  "read_items 1 10
     [(''a'', \<lparr>id' = ''a'', name = Some ''Bolt'', description = None,
               price = Some 1.5, in_stock = Some True\<rparr>),
      (''b'', \<lparr>id' = ''b'', name = Some ''Nut'', description = Some ''M4'',
               price = Some 0.5, in_stock = Some False\<rparr>)] =
   ([\<lparr>id' = ''b'', name = Some ''Nut'', description = Some ''M4'',
               price = Some 0.5, in_stock = Some False\<rparr>],
    [(''a'', \<lparr>id' = ''a'', name = Some ''Bolt'', description = None,
               price = Some 1.5, in_stock = Some True\<rparr>),
      (''b'', \<lparr>id' = ''b'', name = Some ''Nut'', description = Some ''M4'',
               price = Some 0.5, in_stock = Some False\<rparr>)])"
proof -
  have skip: "(0::int) \<le> 1" and limit: "(0::int) \<le> 10" by simp_all
  from read_items_window [OF skip limit] show ?thesis by simp
qed

text \<open>
  C7. The claim is that \<open>search_items\<close> returns, for every store, the Items that match
  the query by the rule \<open>spec_matches\<close>. It fails on a store that an update has left with
  a null name: after two creates and an update of the second Item with \<open>name\<close> given as
  \<open>null\<close>, the rule selects the Item named \<open>widget-1\<close> for the query \<open>WIDGET\<close>, and
  \<open>search_items\<close> raises instead of returning it.
\<close>

theorem search_items_null_name:
  "(let (a, db1) = create_item ''a''
        \<lparr>c_name = ''widget-1'', c_description = None, c_price = 1.5, c_in_stock = True\<rparr> [];
        (b, db2) = create_item ''b''
        \<lparr>c_name = ''Bolt'', c_description = None, c_price = 2, c_in_stock = True\<rparr> db1;
        (r, db3) = update_item ''b''
        \<lparr>u_name = Given None, u_description = Unset, u_price = Unset,
         u_in_stock = Unset\<rparr> db2
    in db3 = [(''a'', \<lparr>id' = ''a'', name = Some ''widget-1'', description = None,
                        price = Some 1.5, in_stock = Some True\<rparr>),
              (''b'', \<lparr>id' = ''b'', name = None, description = None,
                        price = Some 2, in_stock = Some True\<rparr>)] \<and>
       filter (spec_matches ''WIDGET'') (map snd db3) = [a] \<and>
       fst (search_items ''WIDGET'' db3) = Inl AttributeError)"
proof -
  have lw: "lower ''WIDGET'' = ''widget''" "lower ''widget-1'' = ''widget-1''"
    by code_simp+
  show ?thesis
    by (simp add: create_item_def update_item_def dict_exclude_unset_def search_items_def
        spec_matches_def Let_def lw sublist_Cons_right)
qed




text \<open>
  C9. The claim is that \<open>search_items\<close> with the empty query returns every stored Item.
  It fails on a store that an update has left with a null name: after a create and an
  update with \<open>name\<close> given as \<open>null\<close>, the empty query raises instead of returning the
  stored Item.
\<close>

theorem search_items_empty_query_null_name:
  "(let (a, db1) = create_item ''a''
        \<lparr>c_name = ''Bolt'', c_description = None, c_price = 1.5, c_in_stock = True\<rparr> [];
        (r, db2) = update_item ''a''
        \<lparr>u_name = Given None, u_description = Unset, u_price = Unset,
         u_in_stock = Unset\<rparr> db1
    in db2 = [(''a'', \<lparr>id' = ''a'', name = None, description = None,
                        price = Some 1.5, in_stock = Some True\<rparr>)] \<and>
       fst (search_items '''' db2) = Inl AttributeError)"
  by (simp add: create_item_def update_item_def dict_exclude_unset_def search_items_def Let_def)

text \<open>
  C10, as amended. \<open>read_items\<close> returns the values at the positions from the start bound
  to the stop bound of the Python slice \<open>items[skip : skip + limit]\<close>, a negative bound
  counting from the end. \<open>read_items 0 (-1)\<close> returns all values but the last, which is a
  non-empty list exactly when the store holds at least two Items. \<open>read_items (-1) 100\<close>
  returns the last value alone when the store holds 1 to 99 Items, and nothing when it is
  empty or holds 100 or more.
\<close>

theorem read_items_negative:
  "fst (read_items skip limit db) =
     map (\<lambda>i. map snd db ! i)
       [slice_index skip (length db) ..< slice_index (skip + limit) (length db)] \<and>
   read_items 0 (- 1) db = (butlast (map snd db), db) \<and>
   (fst (read_items 0 (- 1) db) \<noteq> [] \<longleftrightarrow> 2 \<le> length db) \<and>
   (1 \<le> length db \<and> length db \<le> 99 \<longrightarrow>
      read_items (- 1) 100 db = ([last (map snd db)], db)) \<and>
   (length db = 0 \<or> 100 \<le> length db \<longrightarrow> read_items (- 1) 100 db = ([], db))"
proof -
  have a: "fst (read_items skip limit db) =
     map (\<lambda>i. map snd db ! i)
       [slice_index skip (length db) ..< slice_index (skip + limit) (length db)]"
    using py_slice_nth [of "map snd db" skip "skip + limit"] by (simp add: read_items_def Let_def)
  have b: "read_items 0 (- 1) db = (butlast (map snd db), db)"
    by (simp add: read_items_def Let_def py_slice_butlast)
  have c: "fst (read_items 0 (- 1) db) \<noteq> [] \<longleftrightarrow> 2 \<le> length db"
  proof -
    have "(butlast (map snd db) = []) = (length (butlast (map snd db)) = 0)"
      by (rule length_0_conv [symmetric])
    also have "\<dots> = (length db - 1 = 0)"
      by (simp only: length_butlast length_map)
    also have "\<dots> = (\<not> 2 \<le> length db)"
      by arith
    finally show ?thesis unfolding b by simp
  qed
  have d: "1 \<le> length db \<and> length db \<le> 99 \<longrightarrow>
      read_items (- 1) 100 db = ([last (map snd db)], db)"
    using py_slice_last [of "map snd db"] by (simp add: read_items_def Let_def)
  have e: "length db = 0 \<or> 100 \<le> length db \<longrightarrow> read_items (- 1) 100 db = ([], db)"
    using py_slice_last_none [of "map snd db"] by (simp add: read_items_def Let_def)
  from a b c d e show ?thesis by blast
qed

theorem read_items_negative_witness:
  "read_items 0 (- 1)
     [(''a'', \<lparr>id' = ''a'', name = Some ''Bolt'', description = None,
               price = Some 1.5, in_stock = Some True\<rparr>),
      (''b'', \<lparr>id' = ''b'', name = Some ''Nut'', description = Some ''M4'',
               price = Some 0.5, in_stock = Some False\<rparr>)] =
   ([\<lparr>id' = ''a'', name = Some ''Bolt'', description = None,
               price = Some 1.5, in_stock = Some True\<rparr>],
    [(''a'', \<lparr>id' = ''a'', name = Some ''Bolt'', description = None,
               price = Some 1.5, in_stock = Some True\<rparr>),
      (''b'', \<lparr>id' = ''b'', name = Some ''Nut'', description = Some ''M4'',
               price = Some 0.5, in_stock = Some False\<rparr>)]) \<and>
   read_items (- 1) 100
     [(''a'', \<lparr>id' = ''a'', name = Some ''Bolt'', description = None,
               price = Some 1.5, in_stock = Some True\<rparr>),
      (''b'', \<lparr>id' = ''b'', name = Some ''Nut'', description = Some ''M4'',
               price = Some 0.5, in_stock = Some False\<rparr>)] =
   ([\<lparr>id' = ''b'', name = Some ''Nut'', description = Some ''M4'',
               price = Some 0.5, in_stock = Some False\<rparr>],
    [(''a'', \<lparr>id' = ''a'', name = Some ''Bolt'', description = None,
               price = Some 1.5, in_stock = Some True\<rparr>),
      (''b'', \<lparr>id' = ''b'', name = Some ''Nut'', description = Some ''M4'',
               price = Some 0.5, in_stock = Some False\<rparr>)]) \<and>
   read_items (- 1) 100 (sample_db 100) = ([], sample_db 100)"
  using
    read_items_negative [of 0 0 "[(''a'', \<lparr>id' = ''a'', name = Some ''Bolt'', description = None,
               price = Some 1.5, in_stock = Some True\<rparr>),
      (''b'', \<lparr>id' = ''b'', name = Some ''Nut'', description = Some ''M4'',
               price = Some 0.5, in_stock = Some False\<rparr>)]"]
    read_items_negative [of 0 0 "sample_db 100"]
  by (simp add: sample_db_length)

text \<open>
  The claim as it was stated fails twice: on a store of one Item \<open>read_items 0 (-1)\<close> is
  empty, and on a store of 100 Items \<open>read_items (-1) 100\<close> is empty, not the last Item.
\<close>

theorem read_items_negative_counterexample:
  "fst (read_items 0 (- 1)
     [(''a'', \<lparr>id' = ''a'', name = Some ''Bolt'', description = None,
               price = Some 1.5, in_stock = Some True\<rparr>)]) = [] \<and>
   length (sample_db 100) = 100 \<and>
   fst (read_items (- 1) 100 (sample_db 100)) = []"
proof -
  have "py_slice (map snd (sample_db 100)) (- 1) 99 = []"
    by (rule py_slice_last_none) (simp add: sample_db_length)
  then show ?thesis
    by (simp add: read_items_def Let_def py_slice_butlast sample_db_length)
qed

end
